theory Spec2Isabelle
  imports Complex_Main "HOL-Library.Log_Nat"
begin

section \<open>Python values used by the auth package\<close>

text \<open>
  A decoded token payload is a Python \<^verbatim>\<open>dict\<close> of JSON values. Python's \<^verbatim>\<open>None\<close> is
  \<open>JNull\<close>; a dict is an association list read with \<open>map_of\<close>.
\<close>

datatype json =
    JNull
  | JBool bool
  | JInt int
  | JFloat rat
  | JStr string
  | JList "json list"
  | JDict "(string \<times> json) list"

text \<open>
  The exceptions the package raises or lets through. \<open>HTTPException\<close> carries the status
  code, the detail and the optional response headers. \<open>AttributeError\<close> is what Python raises
  for \<^verbatim>\<open>x.get(...)\<close> when \<^verbatim>\<open>x\<close> is not a dict, \<open>ValidationError\<close> is pydantic's error for a
  field value it does not accept, and \<open>UncaughtLibraryError\<close> stands for an exception of
  \<^verbatim>\<open>jwt.decode\<close> that is not an \<^verbatim>\<open>InvalidTokenError\<close>. \<open>OverflowError\<close>,
  \<open>ValueError\<close> and \<open>ZeroDivisionError\<close> are those of the arithmetic.
\<close>

datatype exn =
    HTTPException int json "(string \<times> string) list option"
  | AttributeError
  | ValidationError
  | UncaughtLibraryError
  | OverflowError
  | ValueError
  | ZeroDivisionError

definition is_HTTPException :: "exn \<Rightarrow> bool" where
  "is_HTTPException e = (case e of HTTPException _ _ _ \<Rightarrow> True | _ \<Rightarrow> False)"

definition succeeds :: "exn + 'a \<Rightarrow> bool" where
  "succeeds r = (case r of Inl _ \<Rightarrow> False | Inr _ \<Rightarrow> True)"

definition outcome :: "exn + 'a \<Rightarrow> exn option" where
  "outcome r = (case r of Inl e \<Rightarrow> Some e | Inr _ \<Rightarrow> None)"

text \<open>\<^verbatim>\<open>d.get(k)\<close> and \<^verbatim>\<open>d.get(k, default)\<close> on a dict.\<close>

definition dict_get :: "(string \<times> json) list \<Rightarrow> string \<Rightarrow> json" where
  "dict_get d k = (case map_of d k of None \<Rightarrow> JNull | Some v \<Rightarrow> v)"

definition dict_get_default :: "(string \<times> 'v) list \<Rightarrow> string \<Rightarrow> 'v \<Rightarrow> 'v" where
  "dict_get_default d k dflt = (case map_of d k of None \<Rightarrow> dflt | Some v \<Rightarrow> v)"

text \<open>Truthiness of an \<^verbatim>\<open>Optional[str]\<close>: \<^verbatim>\<open>None\<close> and the empty string are falsy.\<close>

definition truthy :: "string option \<Rightarrow> bool" where
  "truthy v = (case v of None \<Rightarrow> False | Some s \<Rightarrow> s \<noteq> [])"



text \<open>
  \<^verbatim>\<open>s.split(",")\<close> and \<^verbatim>\<open>s.strip()\<close>. A header value is a Latin-1 string, one \<open>char\<close> per
  code point; \<open>py_isspace\<close> lists the code points below 256 that \<^verbatim>\<open>str.isspace\<close> accepts.
\<close>

fun split_on :: "char \<Rightarrow> string \<Rightarrow> string list" where
  "split_on c [] = [[]]"
| "split_on c (x # xs) =
     (if x = c then [] # split_on c xs
      else (case split_on c xs of
              [] \<Rightarrow> [[x]]
            | w # ws \<Rightarrow> (x # w) # ws))"

definition py_isspace :: "char \<Rightarrow> bool" where
  "py_isspace c =
     (let n = (of_char c :: nat)
      in (9 \<le> n \<and> n \<le> 13) \<or> (28 \<le> n \<and> n \<le> 32) \<or> n = 133 \<or> n = 160)"

definition strip :: "string \<Rightarrow> string" where
  "strip s = rev (dropWhile py_isspace (rev (dropWhile py_isspace s)))"

section \<open>Python floats\<close>

text \<open>
  A Python float is an IEEE 754 double: a finite value, an infinity or NaN. A finite double
  is given here by its exact rational value. Arithmetic computes the exact result and
  rounds it to the nearest double, ties to the even significand (\<open>round64\<close>): the
  significand has 53 bits, the least exponent is that of the subnormal numbers, and a
  rounded result of magnitude \<open>2 ^ 1024\<close> or more is an infinity.

  \<open>rne\<close> rounds a rational to the nearest integer, ties to even. \<open>binade x\<close> is the
  exponent \<open>e\<close> with \<open>2 powi e \<le> \<bar>x\<bar> < 2 powi (e + 1)\<close>, computed from the bit
  lengths of the numerator and the denominator.
\<close>

definition rne :: "rat \<Rightarrow> int" where
  "rne z =
     (let f = \<lfloor>z\<rfloor>; r = z - of_int f
      in if r < 1 / 2 then f
         else if 1 / 2 < r then f + 1
         else if even f then f else f + 1)"

definition binade :: "rat \<Rightarrow> int" where
  "binade x =
     (let a = \<bar>x\<bar>;
          e0 = bitlen (fst (quotient_of a)) - bitlen (snd (quotient_of a))
      in if 2 powi e0 \<le> a then e0 else e0 - 1)"

definition round64 :: "rat \<Rightarrow> rat" where
  "round64 x =
     (if x = 0 then 0
      else (let q = 2 powi (max (binade x) (- 1022) - 52)
            in q * of_int (rne (x / q))))"

datatype pyfloat = Finite rat | PosInf | NegInf | NaN

definition to_double :: "rat \<Rightarrow> pyfloat" where
  "to_double x =
     (let r = round64 x
      in if 2 ^ 1024 \<le> r then PosInf
         else if r \<le> - (2 ^ 1024) then NegInf
         else Finite r)"

text \<open>\<^verbatim>\<open>a + b\<close>, \<^verbatim>\<open>-a\<close>, \<^verbatim>\<open>a - b\<close> and \<^verbatim>\<open>a > b\<close> on floats.\<close>

fun float_add :: "pyfloat \<Rightarrow> pyfloat \<Rightarrow> pyfloat" where
  "float_add (Finite a) (Finite b) = to_double (a + b)"
| "float_add NaN _ = NaN"
| "float_add _ NaN = NaN"
| "float_add PosInf NegInf = NaN"
| "float_add NegInf PosInf = NaN"
| "float_add PosInf _ = PosInf"
| "float_add _ PosInf = PosInf"
| "float_add NegInf _ = NegInf"
| "float_add _ NegInf = NegInf"

fun float_neg :: "pyfloat \<Rightarrow> pyfloat" where
  "float_neg (Finite a) = Finite (- a)"
| "float_neg PosInf = NegInf"
| "float_neg NegInf = PosInf"
| "float_neg NaN = NaN"

definition float_sub :: "pyfloat \<Rightarrow> pyfloat \<Rightarrow> pyfloat" where
  "float_sub a b = float_add a (float_neg b)"

fun float_gt :: "pyfloat \<Rightarrow> pyfloat \<Rightarrow> bool" where
  "float_gt NaN _ = False"
| "float_gt _ NaN = False"
| "float_gt (Finite a) (Finite b) = (b < a)"
| "float_gt PosInf PosInf = False"
| "float_gt PosInf _ = True"
| "float_gt _ PosInf = False"
| "float_gt NegInf _ = False"
| "float_gt _ NegInf = True"

text \<open>
  \<^verbatim>\<open>a / b\<close> on two ints: the correctly rounded quotient, \<open>ZeroDivisionError\<close> for a zero
  divisor and \<open>OverflowError\<close> when the quotient is too large for a float.
\<close>

definition py_truediv :: "int \<Rightarrow> int \<Rightarrow> exn + pyfloat" where
  "py_truediv a b =
     (if b = 0 then Inl ZeroDivisionError
      else (case to_double (of_int a / of_int b) of
              Finite r \<Rightarrow> Inr (Finite r)
            | _ \<Rightarrow> Inl OverflowError))"


section \<open>core.py: token verification and claims extraction\<close>

record OlympusClaims =
  tenant_id :: "string option"
  tenant_role :: "string option"
  tenant_slug :: "string option"
  permissions :: "string list"
  plan_tier :: "string option"
  is_platform_admin :: bool

record AuthUser =
  id' :: string
  email :: string
  email_verified :: bool
  claims :: OlympusClaims

record HTTPAuthorizationCredentials =
  scheme :: string
  credentials :: string

text \<open>
  \<^verbatim>\<open>jwt.decode\<close> belongs to the PyJWT library, not to this repository: it is a parameter of
  the model. It receives the token, the key, the accepted algorithms and the audience, and
  either returns the payload dict or raises. \<open>ExpiredSignatureError\<close> is caught first,
  \<open>InvalidTokenError\<close> (with \<^verbatim>\<open>str(e)\<close>) second; any other exception is not caught.
\<close>

datatype jwt_outcome =
    Decoded "(string \<times> json) list"
  | ExpiredSignatureError
  | InvalidTokenError string
  | OtherLibraryError

type_synonym jwt_decoder = "string \<Rightarrow> string \<Rightarrow> string list \<Rightarrow> string \<Rightarrow> jwt_outcome"

text \<open>
  \<open>SUPABASE_JWT_SECRET\<close> is read from the environment when the module is loaded (the empty
  string when unset): the first parameter of \<open>decode_jwt\<close>.
\<close>

definition decode_jwt :: "string \<Rightarrow> jwt_decoder \<Rightarrow> string \<Rightarrow> exn + (string \<times> json) list" where
  "decode_jwt SUPABASE_JWT_SECRET jwt_decode token =
     (if SUPABASE_JWT_SECRET = [] then
        Inl (HTTPException 500 (JStr ''JWT secret not configured'') None)
      else
        (case jwt_decode token SUPABASE_JWT_SECRET [''HS256''] ''authenticated'' of
           Decoded payload \<Rightarrow> Inr payload
         | ExpiredSignatureError \<Rightarrow>
             Inl (HTTPException 401
                   (JDict [(''code'', JStr ''AUTH_105''), (''message'', JStr ''Token expired'')])
                   None)
         | InvalidTokenError e \<Rightarrow>
             Inl (HTTPException 401
                   (JDict [(''code'', JStr ''AUTH_106''),
                           (''message'', JStr (''Invalid token: '' @ e))])
                   None)
         | OtherLibraryError \<Rightarrow> Inl UncaughtLibraryError))"

text \<open>
  Field validation of the two pydantic models, on values that come from JSON. A string
  field keeps a string, an optional one also \<^verbatim>\<open>None\<close>, a list field a list of accepted
  items; any other value is a \<open>ValidationError\<close>.
\<close>

fun validate_str :: "json \<Rightarrow> exn + string" where
  "validate_str (JStr s) = Inr s"
| "validate_str _ = Inl ValidationError"

fun validate_optional_str :: "json \<Rightarrow> exn + string option" where
  "validate_optional_str JNull = Inr None"
| "validate_optional_str (JStr s) = Inr (Some s)"
| "validate_optional_str _ = Inl ValidationError"

text \<open>
  A \<^verbatim>\<open>bool\<close> field accepts more than the two booleans: the integers and floats 0 and 1,
  and, compared without regard to case, the words below. Only the ASCII letters are
  lowered: no other character lowers to a letter of these words.
\<close>

definition ascii_lower :: "char \<Rightarrow> char" where
  "ascii_lower c =
     (case map_of (zip ''ABCDEFGHIJKLMNOPQRSTUVWXYZ'' ''abcdefghijklmnopqrstuvwxyz'') c of
        Some l \<Rightarrow> l
      | None \<Rightarrow> c)"

fun validate_bool :: "json \<Rightarrow> exn + bool" where
  "validate_bool (JBool b) = Inr b"
| "validate_bool (JInt i) =
     (if i = 0 then Inr False else if i = 1 then Inr True else Inl ValidationError)"
| "validate_bool (JFloat x) =
     (if x = 0 then Inr False else if x = 1 then Inr True else Inl ValidationError)"
| "validate_bool (JStr s) =
     (let w = map ascii_lower s
      in if w \<in> set [''1'', ''on'', ''t'', ''true'', ''y'', ''yes''] then Inr True
         else if w \<in> set [''0'', ''off'', ''f'', ''false'', ''n'', ''no''] then Inr False
         else Inl ValidationError)"
| "validate_bool _ = Inl ValidationError"

fun validate_str_items :: "json list \<Rightarrow> exn + string list" where
  "validate_str_items [] = Inr []"
| "validate_str_items (x # xs) =
     (case validate_str x of
        Inl e \<Rightarrow> Inl e
      | Inr s \<Rightarrow> (case validate_str_items xs of Inl e \<Rightarrow> Inl e | Inr ss \<Rightarrow> Inr (s # ss)))"

fun validate_str_list :: "json \<Rightarrow> exn + string list" where
  "validate_str_list (JList xs) = validate_str_items xs"
| "validate_str_list _ = Inl ValidationError"

definition new_OlympusClaims ::
  "json \<Rightarrow> json \<Rightarrow> json \<Rightarrow> json \<Rightarrow> json \<Rightarrow> json \<Rightarrow> exn + OlympusClaims" where
  "new_OlympusClaims tid trole tslug perms tier padmin =
     (case (validate_optional_str tid, validate_optional_str trole, validate_optional_str tslug,
            validate_str_list perms, validate_optional_str tier, validate_bool padmin) of
        (Inr a, Inr b, Inr c, Inr d, Inr e, Inr f) \<Rightarrow>
          Inr \<lparr>tenant_id = a, tenant_role = b, tenant_slug = c, permissions = d,
               plan_tier = e, is_platform_admin = f\<rparr>
      | _ \<Rightarrow> Inl ValidationError)"

definition new_AuthUser :: "json \<Rightarrow> json \<Rightarrow> json \<Rightarrow> OlympusClaims \<Rightarrow> exn + AuthUser" where
  "new_AuthUser uid mail verified cl =
     (case (validate_str uid, validate_str mail, validate_bool verified) of
        (Inr a, Inr b, Inr c) \<Rightarrow> Inr \<lparr>id' = a, email = b, email_verified = c, claims = cl\<rparr>
      | _ \<Rightarrow> Inl ValidationError)"

definition get_current_user ::
  "string \<Rightarrow> jwt_decoder \<Rightarrow> HTTPAuthorizationCredentials \<Rightarrow> exn + AuthUser" where
  "get_current_user SUPABASE_JWT_SECRET jwt_decode creds =
     (case decode_jwt SUPABASE_JWT_SECRET jwt_decode (credentials creds) of
        Inl e \<Rightarrow> Inl e
      | Inr payload \<Rightarrow>
          (case dict_get_default payload ''olympus'' (JDict []) of
             JDict olympus \<Rightarrow>
               (case new_OlympusClaims
                       (dict_get olympus ''tenant_id'')
                       (dict_get olympus ''tenant_role'')
                       (dict_get olympus ''tenant_slug'')
                       (dict_get_default olympus ''permissions'' (JList []))
                       (dict_get olympus ''plan_tier'')
                       (dict_get_default olympus ''is_platform_admin'' (JBool False)) of
                  Inl e \<Rightarrow> Inl e
                | Inr cl \<Rightarrow>
                    new_AuthUser
                      (dict_get_default payload ''sub'' (JStr []))
                      (dict_get_default payload ''email'' (JStr []))
                      (dict_get_default payload ''email_verified'' (JBool False))
                      cl)
           | _ \<Rightarrow> Inl AttributeError))"

definition get_optional_user ::
  "string \<Rightarrow> jwt_decoder \<Rightarrow> HTTPAuthorizationCredentials option \<Rightarrow> exn + AuthUser option" where
  "get_optional_user SUPABASE_JWT_SECRET jwt_decode creds =
     (case creds of
        None \<Rightarrow> Inr None
      | Some c \<Rightarrow>
          (case get_current_user SUPABASE_JWT_SECRET jwt_decode c of
             Inr user \<Rightarrow> Inr (Some user)
           | Inl (HTTPException _ _ _) \<Rightarrow> Inr None
           | Inl e \<Rightarrow> Inl e))"

section \<open>permissions.py: the permission guard\<close>

definition ROLE_HIERARCHY :: "(string \<times> int) list" where
  "ROLE_HIERARCHY = [(''owner'', 100), (''admin'', 75), (''developer'', 50), (''viewer'', 25)]"

definition forbidden :: "(string \<times> json) list \<Rightarrow> exn" where
  "forbidden detail = HTTPException 403 (JDict detail) None"

definition require_permission :: "string \<Rightarrow> AuthUser \<Rightarrow> exn + AuthUser" where
  "require_permission permission user =
     (if ''*'' \<in> set (permissions (claims user)) then Inr user
      else if permission \<notin> set (permissions (claims user)) then
        Inl (forbidden [(''code'', JStr ''AUTH_301''), (''message'', JStr ''Permission denied''),
                        (''required'', JStr permission)])
      else Inr user)"

definition require_any_permission :: "string list \<Rightarrow> AuthUser \<Rightarrow> exn + AuthUser" where
  "require_any_permission perms user =
     (if ''*'' \<in> set (permissions (claims user)) then Inr user
      else
        (let has_any = list_ex (\<lambda>p. p \<in> set (permissions (claims user))) perms
         in if \<not> has_any then
              Inl (forbidden [(''code'', JStr ''AUTH_301''), (''message'', JStr ''Permission denied''),
                              (''required_any'', JList (map JStr perms))])
            else Inr user))"

definition require_role :: "string \<Rightarrow> AuthUser \<Rightarrow> exn + AuthUser" where
  "require_role min_role user =
     (let user_role = tenant_role (claims user)
      in if \<not> truthy user_role then
           Inl (forbidden [(''code'', JStr ''AUTH_301''), (''message'', JStr ''No tenant role''),
                           (''required_role'', JStr min_role)])
         else
           (let role = (case user_role of Some r \<Rightarrow> r | None \<Rightarrow> []);
                user_level = dict_get_default ROLE_HIERARCHY role 0;
                required_level = dict_get_default ROLE_HIERARCHY min_role 0
            in if user_level < required_level then
                 Inl (forbidden [(''code'', JStr ''AUTH_301''), (''message'', JStr ''Insufficient role''),
                                 (''required_role'', JStr min_role),
                                 (''current_role'', JStr role)])
               else Inr user))"

definition require_tenant :: "AuthUser \<Rightarrow> exn + AuthUser" where
  "require_tenant user =
     (if \<not> truthy (tenant_id (claims user)) then
        Inl (forbidden [(''code'', JStr ''AUTH_302''), (''message'', JStr ''Tenant context required'')])
      else Inr user)"

definition require_verified_email :: "AuthUser \<Rightarrow> exn + AuthUser" where
  "require_verified_email user =
     (if \<not> email_verified user then
        Inl (forbidden [(''code'', JStr ''AUTH_102''), (''message'', JStr ''Email verification required'')])
      else Inr user)"

definition require_platform_admin :: "AuthUser \<Rightarrow> exn + AuthUser" where
  "require_platform_admin user =
     (if \<not> is_platform_admin (claims user) then
        Inl (forbidden [(''code'', JStr ''AUTH_301''), (''message'', JStr ''Platform admin required'')])
      else Inr user)"

section \<open>rate-limit module: the sliding-window limiter\<close>

record Address =
  host :: string
  port :: int

text \<open>
  A request, as far as the limiter reads it: the headers (looked up by lower-case name) and
  the optional client address.
\<close>

record Request =
  headers :: "string \<rightharpoonup> string"
  client :: "Address option"

text \<open>
  \<open>requests\<close> is a \<^verbatim>\<open>defaultdict(list)\<close>: reading a missing key gives the empty list. A
  timestamp is a reading of \<^verbatim>\<open>time.time()\<close>, in seconds: a finite double, kept as its
  exact value.
\<close>

record RateLimiter =
  requests :: "string \<rightharpoonup> rat list"

definition requests_of :: "RateLimiter \<Rightarrow> string \<Rightarrow> rat list" where
  "requests_of self key = (case requests self key of None \<Rightarrow> [] | Some ts \<Rightarrow> ts)"

definition get_key :: "Request \<Rightarrow> string \<Rightarrow> string" where
  "get_key request prefix =
     (let user_id = headers request ''x-user-id''
      in if truthy user_id then
           prefix @ '':user:'' @ (case user_id of Some u \<Rightarrow> u | None \<Rightarrow> [])
         else
           (let forwarded = headers request ''x-forwarded-for'';
                ip = (if truthy forwarded then
                        strip (hd (split_on CHR '','' (case forwarded of Some f \<Rightarrow> f | None \<Rightarrow> [])))
                      else (case client request of Some a \<Rightarrow> host a | None \<Rightarrow> ''unknown''))
            in prefix @ '':ip:'' @ ip))"

text \<open>
  \<open>cleanup\<close> reads the clock itself (\<open>clock\<close> is that reading), computes the cutoff in
  floats and keeps the timestamps strictly greater than it. The division raises before the
  limiter is touched.
\<close>

definition cleanup :: "rat \<Rightarrow> RateLimiter \<Rightarrow> string \<Rightarrow> int \<Rightarrow> exn + RateLimiter" where
  "cleanup clock self key window_ms =
     (case py_truediv window_ms 1000 of
        Inl e \<Rightarrow> Inl e
      | Inr window \<Rightarrow>
          (let cutoff = float_sub (Finite clock) window
           in Inr (self\<lparr>requests := (requests self)
                       (key \<mapsto> filter (\<lambda>t. float_gt (Finite t) cutoff) (requests_of self key))\<rparr>)))"

text \<open>
  \<open>check\<close> reads the clock (\<open>now\<close>), then calls \<open>cleanup\<close>, which reads it again
  (\<open>clock\<close>). The result is what the call returns or raises, and the limiter after it.
\<close>

definition check ::
  "rat \<Rightarrow> rat \<Rightarrow> RateLimiter \<Rightarrow> Request \<Rightarrow> int \<Rightarrow> int \<Rightarrow> string
     \<Rightarrow> (exn + bool \<times> int \<times> pyfloat) \<times> RateLimiter" where
  "check now clock self request window_ms max_requests prefix =
     (let key = get_key request prefix
      in case cleanup clock self key window_ms of
           Inl e \<Rightarrow> (Inl e, self)
         | Inr self1 \<Rightarrow>
             (let count = int (length (requests_of self1 key));
                  remaining = max 0 (max_requests - count - 1)
              in case py_truediv window_ms 1000 of
                   Inl e \<Rightarrow> (Inl e, self1)
                 | Inr window \<Rightarrow>
                     (let reset_at = float_add (Finite now) window
                      in if count \<ge> max_requests then (Inr (False, 0, reset_at), self1)
                         else (Inr (True, remaining, reset_at),
                               self1\<lparr>requests := (requests self1)
                                        (key \<mapsto> requests_of self1 key @ [now])\<rparr>))))"

record rate_limit_state =
  limit :: int
  remaining :: int
  reset :: int


section \<open>Example values and the role rank\<close>

text \<open>The defaults of the \<open>OlympusClaims\<close> model, and a user built on them.\<close>

definition default_OlympusClaims :: OlympusClaims where
  "default_OlympusClaims =
     \<lparr>tenant_id = None, tenant_role = None, tenant_slug = None, permissions = [],
      plan_tier = None, is_platform_admin = False\<rparr>"

definition example_user :: AuthUser where
  "example_user =
     \<lparr>id' = ''user-1'', email = ''user@example.com'', email_verified = False,
      claims = default_OlympusClaims\<rparr>"

text \<open>The same user with one field of the claims replaced.\<close>

definition with_permissions :: "string list \<Rightarrow> AuthUser \<Rightarrow> AuthUser" where
  "with_permissions ps user = user\<lparr>claims := (claims user)\<lparr>permissions := ps\<rparr>\<rparr>"

definition with_tenant_role :: "string option \<Rightarrow> AuthUser \<Rightarrow> AuthUser" where
  "with_tenant_role r user = user\<lparr>claims := (claims user)\<lparr>tenant_role := r\<rparr>\<rparr>"

definition with_tenant_id :: "string option \<Rightarrow> AuthUser \<Rightarrow> AuthUser" where
  "with_tenant_id t user = user\<lparr>claims := (claims user)\<lparr>tenant_id := t\<rparr>\<rparr>"

text \<open>
  The rank of an optional role: the entry of \<open>ROLE_HIERARCHY\<close>, and 0 for an unknown or
  absent role.
\<close>

definition rank :: "string option \<Rightarrow> int" where
  "rank role = (case role of None \<Rightarrow> 0 | Some r \<Rightarrow> dict_get_default ROLE_HIERARCHY r 0)"

text \<open>
  A decoder that gives the same result for every token (for the examples: a library that
  accepts the token and returns a given payload, or rejects it), bearer credentials, and a
  payload whose custom namespace carries a permission list.
\<close>

definition constant_decoder :: "jwt_outcome \<Rightarrow> jwt_decoder" where
  "constant_decoder result = (\<lambda>token key algorithms audience. result)"

definition bearer :: "string \<Rightarrow> HTTPAuthorizationCredentials" where
  "bearer token = \<lparr>scheme = ''Bearer'', credentials = token\<rparr>"

definition payload_with_permissions :: "string list \<Rightarrow> (string \<times> json) list" where
  "payload_with_permissions ps =
     [(''sub'', JStr ''user-1''), (''email'', JStr ''user@example.com''),
      (''olympus'', JDict [(''permissions'', JList (map JStr ps))])]"

section \<open>Runs of the limiter, and the check as the specification words it\<close>





definition direct_request :: Request where
  "direct_request = \<lparr>headers = Map.empty, client = Some \<lparr>host = ''10.0.0.1'', port = 51234\<rparr>\<rparr>"

definition request_with_headers :: "(string \<times> string) list \<Rightarrow> Request" where
  "request_with_headers hs = \<lparr>headers = map_of hs, client = Some \<lparr>host = ''10.0.0.1'', port = 51234\<rparr>\<rparr>"


definition anonymous_request :: Request where
  "anonymous_request = \<lparr>headers = Map.empty, client = None\<rparr>"

section \<open>Properties\<close>

subsection \<open>Auxiliary facts\<close>

lemma split_on_nonempty: "split_on c s \<noteq> []"
  by (induction s) (auto split: list.splits)

lemma succeeds_simps: "succeeds (Inr x) = True" "succeeds (Inl e) = False"
  by (simp_all add: succeeds_def)

lemma role_level_cases:
  "dict_get_default ROLE_HIERARCHY r 0 =
     (if r = ''owner'' then 100 else if r = ''admin'' then 75 else if r = ''developer'' then 50
      else if r = ''viewer'' then 25 else 0)"
  by (simp add: dict_get_default_def ROLE_HIERARCHY_def)

lemma require_role_succeeds_iff:
  "succeeds (require_role min_role user) \<longleftrightarrow>
     (\<exists>role. tenant_role (claims user) = Some role \<and> role \<noteq> [] \<and>
        dict_get_default ROLE_HIERARCHY min_role 0 \<le> dict_get_default ROLE_HIERARCHY role 0)"
  by (cases "tenant_role (claims user)")
     (auto simp add: require_role_def truthy_def succeeds_def Let_def)

lemma require_role_no_role:
  "\<not> truthy (tenant_role (claims user)) \<Longrightarrow>
   require_role min_role user =
     Inl (forbidden [(''code'', JStr ''AUTH_301''), (''message'', JStr ''No tenant role''),
                     (''required_role'', JStr min_role)])"
  by (simp add: require_role_def)

lemma checks_ignore_permissions:
  "require_role min_role (with_permissions qs user) = map_sum id (with_permissions qs) (require_role min_role user)"
  "require_tenant (with_permissions qs user) = map_sum id (with_permissions qs) (require_tenant user)"
  "require_verified_email (with_permissions qs user) = map_sum id (with_permissions qs) (require_verified_email user)"
  "require_platform_admin (with_permissions qs user) = map_sum id (with_permissions qs) (require_platform_admin user)"
  by (simp_all add: require_role_def require_tenant_def require_verified_email_def
        require_platform_admin_def with_permissions_def Let_def)


lemma rne_unfold:
  "rne z =
     (if z - of_int \<lfloor>z\<rfloor> < 1 / 2 then \<lfloor>z\<rfloor>
      else if 1 / 2 < z - of_int \<lfloor>z\<rfloor> then \<lfloor>z\<rfloor> + 1
      else if even \<lfloor>z\<rfloor> then \<lfloor>z\<rfloor> else \<lfloor>z\<rfloor> + 1)"
  by (simp add: rne_def Let_def)



lemma quotient_of_abs_pos:
  assumes "x \<noteq> 0"
  shows "0 < fst (quotient_of \<bar>x\<bar>)" "0 < snd (quotient_of \<bar>x\<bar>)"
    "\<bar>x\<bar> = of_int (fst (quotient_of \<bar>x\<bar>)) / of_int (snd (quotient_of \<bar>x\<bar>))"
proof -
  obtain p q where pq: "quotient_of \<bar>x\<bar> = (p, q)"
    by (cases "quotient_of \<bar>x\<bar>")
  have q: "0 < q"
    using quotient_of_denom_pos [OF pq] .
  have eq: "\<bar>x\<bar> = of_int p / of_int q"
    using quotient_of_div [OF pq] .
  have "0 < \<bar>x\<bar>" using assms by simp
  with eq q have "0 < p"
    by (simp add: zero_less_divide_iff)
  with q eq pq show "0 < fst (quotient_of \<bar>x\<bar>)" "0 < snd (quotient_of \<bar>x\<bar>)"
    "\<bar>x\<bar> = of_int (fst (quotient_of \<bar>x\<bar>)) / of_int (snd (quotient_of \<bar>x\<bar>))"
    by simp_all
qed


lemma binade_lower:
  assumes "x \<noteq> 0"
  shows "2 powi binade x \<le> \<bar>x\<bar>"
proof -
  define p where "p = fst (quotient_of \<bar>x\<bar>)"
  define q where "q = snd (quotient_of \<bar>x\<bar>)"
  have p: "0 < p" and q: "0 < q" and eq: "\<bar>x\<bar> = of_int p / of_int q"
    using quotient_of_abs_pos [OF assms] by (simp_all add: p_def q_def)
  define e0 where "e0 = bitlen p - bitlen q"
  show ?thesis
  proof (cases "2 powi e0 \<le> \<bar>x\<bar>")
    case True
    then show ?thesis
      by (simp add: binade_def Let_def p_def [symmetric] q_def [symmetric] e0_def [symmetric])
  next
    case False
    have bp: "(2::int) ^ nat (bitlen p - 1) \<le> p"
      using bitlen_bounds [OF p] by simp
    have bq: "q < (2::int) ^ nat (bitlen q)"
      using bitlen_bounds [OF q] by simp
    have lp: "1 \<le> bitlen p" "0 \<le> bitlen q"
      using p q bitlen_nonneg [of q] by (auto simp add: bitlen_alt_def)
    have p': "(2::rat) powi (bitlen p - 1) \<le> of_int p"
    proof -
      have "(of_int ((2::int) ^ nat (bitlen p - 1)) :: rat) \<le> of_int p"
        using bp by (simp only: of_int_le_iff)
      then show ?thesis
        using lp by (simp add: power_int_def)
    qed
    have q': "(of_int q :: rat) \<le> 2 powi bitlen q"
    proof -
      have "(of_int q :: rat) < of_int ((2::int) ^ nat (bitlen q))"
        using bq by (simp only: of_int_less_iff)
      then show ?thesis
        using lp by (simp add: power_int_def)
    qed
    have "(2::rat) powi (e0 - 1) = 2 powi (bitlen p - 1) / 2 powi bitlen q"
      by (simp add: e0_def power_int_diff)
    also have "\<dots> \<le> of_int p / of_int q"
      using p' q' p q by (intro frac_le) simp_all
    finally have "(2::rat) powi (e0 - 1) \<le> \<bar>x\<bar>"
      by (simp add: eq)
    with False show ?thesis
      by (simp add: binade_def Let_def p_def [symmetric] q_def [symmetric] e0_def [symmetric])
  qed
qed

lemma binade_upper:
  assumes "x \<noteq> 0"
  shows "\<bar>x\<bar> < 2 powi (binade x + 1)"
proof -
  define p where "p = fst (quotient_of \<bar>x\<bar>)"
  define q where "q = snd (quotient_of \<bar>x\<bar>)"
  have p: "0 < p" and q: "0 < q" and eq: "\<bar>x\<bar> = of_int p / of_int q"
    using quotient_of_abs_pos [OF assms] by (simp_all add: p_def q_def)
  define e0 where "e0 = bitlen p - bitlen q"
  have bp: "p < (2::int) ^ nat (bitlen p)"
    using bitlen_bounds [OF p] by simp
  have bq: "(2::int) ^ nat (bitlen q - 1) \<le> q"
    using bitlen_bounds [OF q] by simp
  have lp: "0 \<le> bitlen p" "1 \<le> bitlen q"
    using p q bitlen_nonneg [of p] by (auto simp add: bitlen_alt_def)
  have p': "(of_int p :: rat) < 2 powi bitlen p"
  proof -
    have "(of_int p :: rat) < of_int ((2::int) ^ nat (bitlen p))"
      using bp by (simp only: of_int_less_iff)
    then show ?thesis
      using lp by (simp add: power_int_def)
  qed
  have q': "(2::rat) powi (bitlen q - 1) \<le> of_int q"
  proof -
    have "(of_int ((2::int) ^ nat (bitlen q - 1)) :: rat) \<le> of_int q"
      using bq by (simp only: of_int_le_iff)
    then show ?thesis
      using lp by (simp add: power_int_def)
  qed
  have pos: "(0::rat) < 2 powi (bitlen q - 1)"
    by (simp add: zero_less_power_int)
  have "of_int p / of_int q < (2::rat) powi bitlen p / 2 powi (bitlen q - 1)"
    using p' q' p q pos by (intro frac_less) simp_all
  also have "\<dots> = 2 powi (e0 + 1)"
  proof -
    have ee: "e0 + 1 = bitlen p - (bitlen q - 1)"
      by (simp add: e0_def)
    have "(2::rat) powi (e0 + 1) = 2 powi (bitlen p - (bitlen q - 1))"
      by (simp only: ee)
    also have "\<dots> = 2 powi bitlen p / 2 powi (bitlen q - 1)"
      by (rule power_int_diff) simp
    finally show ?thesis
      by (rule sym)
  qed
  finally have up: "\<bar>x\<bar> < 2 powi (e0 + 1)"
    by (simp add: eq)
  show ?thesis
  proof (cases "2 powi e0 \<le> \<bar>x\<bar>")
    case True
    with up show ?thesis
      by (simp add: binade_def Let_def p_def [symmetric] q_def [symmetric] e0_def [symmetric])
  next
    case False
    then show ?thesis
      by (simp add: binade_def Let_def p_def [symmetric] q_def [symmetric] e0_def [symmetric])
  qed
qed

lemma binade_less:
  assumes "x \<noteq> 0" and "\<bar>x\<bar> < 2 powi k"
  shows "binade x < k"
proof (rule ccontr)
  assume "\<not> binade x < k"
  then have "(2::rat) powi k \<le> 2 powi binade x"
    by (intro power_int_increasing) simp_all
  with binade_lower [OF assms(1)] assms(2) show False
    by linarith
qed



lemma binade_nonneg:
  assumes "1 \<le> \<bar>x\<bar>"
  shows "0 \<le> binade x"
proof (rule ccontr)
  assume "\<not> 0 \<le> binade x"
  then have "binade x + 1 \<le> 0"
    by simp
  then have "(2::rat) powi (binade x + 1) \<le> 2 powi 0"
    by (intro power_int_increasing) simp_all
  moreover have "x \<noteq> 0"
    using assms by auto
  ultimately show False
    using binade_upper [of x] assms by simp
qed

lemma rne_of_int: "rne (of_int n) = n"
  by (simp add: rne_unfold)

lemma round64_of_int:
  assumes "\<bar>n\<bar> < 2 ^ 53"
  shows "round64 (of_int n) = of_int n"
proof (cases "n = 0")
  case True
  then show ?thesis by (simp add: round64_def)
next
  case False
  define x :: rat where "x = of_int n"
  have x0: "x \<noteq> 0"
    using False by (simp add: x_def)
  have "\<bar>x\<bar> = of_int \<bar>n\<bar>"
    by (simp add: x_def)
  also have "\<dots> < of_int (2 ^ 53)"
    using assms by (simp only: of_int_less_iff)
  finally have lt: "\<bar>x\<bar> < 2 powi 53"
    by simp
  have ge: "1 \<le> \<bar>x\<bar>"
    using False by (simp add: x_def)
  have b1: "binade x < 53"
    by (rule binade_less [OF x0 lt])
  have b0: "0 \<le> binade x"
    by (rule binade_nonneg [OF ge])
  define j where "j = nat (52 - binade x)"
  have e: "max (binade x) (- 1022) - 52 = - int j"
    using b0 b1 by (simp add: j_def)
  have q: "(2::rat) powi (max (binade x) (- 1022) - 52) = inverse (2 ^ j)"
    unfolding e by (simp add: power_int_minus)
  have "x / inverse (2 ^ j) = of_int (n * 2 ^ j)"
    by (simp add: x_def divide_inverse)
  then have "rne (x / inverse (2 ^ j)) = n * 2 ^ j"
    by (simp only: rne_of_int)
  then have "round64 x = inverse (2 ^ j) * of_int (n * 2 ^ j)"
    using x0 by (simp add: round64_def Let_def q)
  also have "\<dots> = x"
    by (simp add: x_def)
  finally show ?thesis
    by (simp add: x_def)
qed




lemma round64_numeral:
  assumes "(numeral k :: int) < 2 ^ 53"
  shows "round64 (numeral k) = numeral k"
  using round64_of_int [of "numeral k"] assms by simp






lemma requests_of_update:
  "requests_of (self\<lparr>requests := (requests self)(k \<mapsto> ts)\<rparr>) k' =
     (if k' = k then ts else requests_of self k')"
  by (simp add: requests_of_def)

lemma check_raises:
  assumes "py_truediv window_ms 1000 = Inl e"
  shows "check now clock self request window_ms max_requests prefix = (Inl e, self)"
  using assms by (simp add: check_def cleanup_def)


lemma check_requests_of:
  assumes "py_truediv window_ms 1000 = Inr window"
  shows "requests_of (snd (check now clock self request window_ms max_requests prefix)) k' =
     (let key = get_key request prefix;
          kept = filter (\<lambda>t. float_gt (Finite t) (float_sub (Finite clock) window))
                   (requests_of self key)
      in if k' \<noteq> key then requests_of self k'
         else if max_requests \<le> int (length kept) then kept
         else kept @ [now])"
  using assms by (simp add: check_def cleanup_def Let_def requests_of_update)

lemma check_requests_of_other:
  assumes "k' \<noteq> get_key request prefix"
  shows "requests_of (snd (check now clock self request window_ms max_requests prefix)) k' =
           requests_of self k'"
proof (cases "py_truediv window_ms 1000")
  case (Inl e)
  then show ?thesis
    by (simp add: check_raises)
next
  case (Inr window)
  then show ?thesis
    using assms by (simp add: check_requests_of Let_def)
qed




lemma hd_split_on: "hd (split_on c s) = takeWhile (\<lambda>x. x \<noteq> c) s"
proof (induction s)
  case Nil
  then show ?case by simp
next
  case (Cons x xs)
  then show ?case
    using split_on_nonempty [of c xs] by (cases "split_on c xs") auto
qed

lemma get_key_prefix: "get_key request prefix = prefix @ get_key request []"
  by (simp add: get_key_def Let_def)

lemma decode_jwt_constant:
  "decode_jwt ''secret'' (constant_decoder (Decoded payload)) token = Inr payload"
  by (simp add: decode_jwt_def constant_decoder_def)

lemma validate_str_items_strings: "validate_str_items (map JStr ps) = Inr ps"
  by (induction ps) simp_all

lemma get_current_user_decoded:
  assumes "decode_jwt secret jwt_decode (credentials creds) = Inr payload"
  shows "get_current_user secret jwt_decode creds =
     (case dict_get_default payload ''olympus'' (JDict []) of
        JDict olympus \<Rightarrow>
          (case new_OlympusClaims
                  (dict_get olympus ''tenant_id'')
                  (dict_get olympus ''tenant_role'')
                  (dict_get olympus ''tenant_slug'')
                  (dict_get_default olympus ''permissions'' (JList []))
                  (dict_get olympus ''plan_tier'')
                  (dict_get_default olympus ''is_platform_admin'' (JBool False)) of
             Inl e \<Rightarrow> Inl e
           | Inr cl \<Rightarrow>
               new_AuthUser
                 (dict_get_default payload ''sub'' (JStr []))
                 (dict_get_default payload ''email'' (JStr []))
                 (dict_get_default payload ''email_verified'' (JBool False))
                 cl)
      | _ \<Rightarrow> Inl AttributeError)"
  using assms by (simp add: get_current_user_def)

lemma new_OlympusClaims_defaults:
  "new_OlympusClaims JNull JNull JNull (JList []) JNull (JBool False) = Inr default_OlympusClaims"
  by (simp add: new_OlympusClaims_def default_OlympusClaims_def)

lemma new_OlympusClaims_permissions:
  assumes "new_OlympusClaims a b c (JList (map JStr ps)) d e = Inr cl"
  shows "permissions cl = ps"
  using assms
  by (auto simp add: new_OlympusClaims_def validate_str_items_strings split: sum.splits)

lemma new_AuthUser_claims:
  assumes "new_AuthUser a b c cl = Inr user"
  shows "claims user = cl"
  using assms by (auto simp add: new_AuthUser_def split: sum.splits)

lemma new_AuthUser_fields:
  assumes "new_AuthUser a b c cl = Inr user"
  shows "validate_str a = Inr (id' user)"
    and "validate_str b = Inr (email user)"
    and "validate_bool c = Inr (email_verified user)"
  using assms by (auto simp add: new_AuthUser_def split: sum.splits)

lemma outcome_require_permission:
  "outcome (require_permission p user) =
     (if ''*'' \<in> set (permissions (claims user)) \<or> p \<in> set (permissions (claims user)) then None
      else Some (forbidden [(''code'', JStr ''AUTH_301''), (''message'', JStr ''Permission denied''),
                        (''required'', JStr p)]))"
  by (simp add: outcome_def require_permission_def)

lemma outcome_require_any_permission:
  "outcome (require_any_permission qs user) =
     (if ''*'' \<in> set (permissions (claims user)) \<or> set qs \<inter> set (permissions (claims user)) \<noteq> {}
      then None
      else Some (forbidden [(''code'', JStr ''AUTH_301''), (''message'', JStr ''Permission denied''),
                            (''required_any'', JList (map JStr qs))]))"
  by (auto simp add: outcome_def require_any_permission_def list_ex_iff)

lemma get_current_user_with_permissions:
  "get_current_user ''secret'' (constant_decoder (Decoded (payload_with_permissions ps)))
     (bearer ''token'')
   = Inr (with_permissions ps example_user)"
  by (simp add: get_current_user_decoded [OF decode_jwt_constant] payload_with_permissions_def
        dict_get_def dict_get_default_def new_OlympusClaims_def new_AuthUser_def
        validate_str_items_strings with_permissions_def example_user_def default_OlympusClaims_def)

lemma decode_jwt_no_secret:
  "decode_jwt [] jwt_decode token = Inl (HTTPException 500 (JStr ''JWT secret not configured'') None)"
  by (simp add: decode_jwt_def)

lemma decode_jwt_expired:
  assumes "secret \<noteq> []"
    and "jwt_decode token secret [''HS256''] ''authenticated'' = ExpiredSignatureError"
  shows "decode_jwt secret jwt_decode token =
           Inl (HTTPException 401
                 (JDict [(''code'', JStr ''AUTH_105''), (''message'', JStr ''Token expired'')])
                 None)"
  using assms by (simp add: decode_jwt_def)

lemma decode_jwt_invalid:
  assumes "secret \<noteq> []"
    and "jwt_decode token secret [''HS256''] ''authenticated'' = InvalidTokenError msg"
  shows "decode_jwt secret jwt_decode token =
           Inl (HTTPException 401
                 (JDict [(''code'', JStr ''AUTH_106''),
                         (''message'', JStr (''Invalid token: '' @ msg))])
                 None)"
  using assms by (simp add: decode_jwt_def)

lemma get_current_user_decode_error:
  assumes "decode_jwt secret jwt_decode (credentials creds) = Inl e"
  shows "get_current_user secret jwt_decode creds = Inl e"
  using assms by (simp add: get_current_user_def)

lemma get_optional_user_Some:
  "get_optional_user secret jwt_decode (Some creds) =
     (case get_current_user secret jwt_decode creds of
        Inr user \<Rightarrow> Inr (Some user)
      | Inl e \<Rightarrow> if is_HTTPException e then Inr None else Inl e)"
  by (simp add: get_optional_user_def is_HTTPException_def split: sum.splits exn.splits)

subsection \<open>C1: the wildcard permission\<close>

text \<open>
  C1. For every user whose permission list contains \<^verbatim>\<open>"*"\<close>, \<open>require_permission\<close> succeeds
  for every permission and \<open>require_any_permission\<close> for every list, the empty one included.
  The wildcard satisfies no other check: \<open>require_role\<close>, \<open>require_tenant\<close>,
  \<open>require_verified_email\<close> and \<open>require_platform_admin\<close> succeed exactly when their own
  condition holds, and their outcome is the same whatever list \<open>qs\<close> replaces the
  permissions (one without the wildcard, for instance).
\<close>

theorem wildcard_only_satisfies_permission_checks:
  assumes "''*'' \<in> set (permissions (claims user))"
  shows "require_permission p user = Inr user
       \<and> require_any_permission ps user = Inr user
       \<and> require_any_permission [] user = Inr user
       \<and> (succeeds (require_role min_role user) \<longleftrightarrow>
            (\<exists>role. tenant_role (claims user) = Some role \<and> role \<noteq> [] \<and>
               dict_get_default ROLE_HIERARCHY min_role 0 \<le> dict_get_default ROLE_HIERARCHY role 0))
       \<and> (succeeds (require_tenant user) \<longleftrightarrow> truthy (tenant_id (claims user)))
       \<and> (succeeds (require_verified_email user) \<longleftrightarrow> email_verified user)
       \<and> (succeeds (require_platform_admin user) \<longleftrightarrow> is_platform_admin (claims user))
       \<and> require_role min_role (with_permissions qs user) =
           map_sum id (with_permissions qs) (require_role min_role user)
       \<and> require_tenant (with_permissions qs user) =
           map_sum id (with_permissions qs) (require_tenant user)
       \<and> require_verified_email (with_permissions qs user) =
           map_sum id (with_permissions qs) (require_verified_email user)
       \<and> require_platform_admin (with_permissions qs user) =
           map_sum id (with_permissions qs) (require_platform_admin user)"
proof -
  have perm: "require_permission p user = Inr user"
    using assms by (simp add: require_permission_def)
  have any: "require_any_permission qs' user = Inr user" for qs'
    using assms by (simp add: require_any_permission_def)
  have tenant: "succeeds (require_tenant user) \<longleftrightarrow> truthy (tenant_id (claims user))"
    by (simp add: require_tenant_def succeeds_def)
  have mail: "succeeds (require_verified_email user) \<longleftrightarrow> email_verified user"
    by (simp add: require_verified_email_def succeeds_def)
  have admin: "succeeds (require_platform_admin user) \<longleftrightarrow> is_platform_admin (claims user)"
    by (simp add: require_platform_admin_def succeeds_def)
  show ?thesis
    using perm any tenant mail admin require_role_succeeds_iff checks_ignore_permissions
    by simp
qed

text \<open>
  A user holding only the wildcard, with no tenant, no role, an unverified email and no
  platform-admin flag: both permission checks pass, the four others fail.
\<close>

theorem wildcard_only_satisfies_permission_checks_witness:
  "''*'' \<in> set (permissions (claims (with_permissions [''*''] example_user)))
   \<and> require_permission ''projects:delete'' (with_permissions [''*''] example_user)
       = Inr (with_permissions [''*''] example_user)
   \<and> require_any_permission [] (with_permissions [''*''] example_user)
       = Inr (with_permissions [''*''] example_user)
   \<and> \<not> succeeds (require_role ''viewer'' (with_permissions [''*''] example_user))
   \<and> \<not> succeeds (require_tenant (with_permissions [''*''] example_user))
   \<and> \<not> succeeds (require_verified_email (with_permissions [''*''] example_user))
   \<and> \<not> succeeds (require_platform_admin (with_permissions [''*''] example_user))"
proof -
  let ?u = "with_permissions [''*''] example_user"
  have h: "''*'' \<in> set (permissions (claims ?u))"
    by (simp add: with_permissions_def)
  have facts: "tenant_role (claims ?u) = None" "\<not> truthy (tenant_id (claims ?u))"
      "\<not> email_verified ?u" "\<not> is_platform_admin (claims ?u)"
    by (simp_all add: with_permissions_def example_user_def default_OlympusClaims_def truthy_def)
  show ?thesis
    using h facts
      wildcard_only_satisfies_permission_checks [OF h, of "''projects:delete''" "[]" "''viewer''" "[]"]
    by simp
qed



subsection \<open>C2: the role hierarchy\<close>

text \<open>
  C2, as the code has it. \<open>require_role min_role\<close> succeeds if and only if the user's
  tenant role is present, is not the empty string, and its rank is at least the rank of
  \<open>min_role\<close>; the ranks are owner 100, admin 75, developer 50, viewer 25, and 0 for an
  unknown or absent role. \<open>require_role ''admin''\<close> succeeds exactly for the roles owner and
  admin. A user with no tenant role (absent or empty) fails with the "No tenant role"
  error, whatever \<open>min_role\<close> is.
\<close>

theorem require_role_rank_order:
  "(succeeds (require_role min_role user) \<longleftrightarrow>
      truthy (tenant_role (claims user)) \<and> rank (Some min_role) \<le> rank (tenant_role (claims user)))
   \<and> rank (Some ''owner'') = 100 \<and> rank (Some ''admin'') = 75
   \<and> rank (Some ''developer'') = 50 \<and> rank (Some ''viewer'') = 25 \<and> rank None = 0
   \<and> (r \<notin> {''owner'', ''admin'', ''developer'', ''viewer''} \<longrightarrow> rank (Some r) = 0)
   \<and> (succeeds (require_role ''admin'' user) \<longleftrightarrow>
        tenant_role (claims user) = Some ''owner'' \<or> tenant_role (claims user) = Some ''admin'')
   \<and> (\<not> truthy (tenant_role (claims user)) \<longrightarrow>
        require_role min_role user =
          Inl (forbidden [(''code'', JStr ''AUTH_301''), (''message'', JStr ''No tenant role''),
                          (''required_role'', JStr min_role)]))"
proof -
  have iff: "succeeds (require_role min_role user) \<longleftrightarrow>
      truthy (tenant_role (claims user)) \<and> rank (Some min_role) \<le> rank (tenant_role (claims user))"
  proof (cases "tenant_role (claims user)")
    case None
    then show ?thesis by (simp add: require_role_succeeds_iff truthy_def)
  next
    case (Some role)
    then show ?thesis by (simp add: require_role_succeeds_iff truthy_def rank_def)
  qed
  have r1: "rank (Some ''owner'') = 100" by (simp add: rank_def role_level_cases)
  have r2: "rank (Some ''admin'') = 75" by (simp add: rank_def role_level_cases)
  have r3: "rank (Some ''developer'') = 50" by (simp add: rank_def role_level_cases)
  have r4: "rank (Some ''viewer'') = 25" by (simp add: rank_def role_level_cases)
  have r5: "rank None = 0" by (simp add: rank_def)
  have unknown: "r \<notin> {''owner'', ''admin'', ''developer'', ''viewer''} \<longrightarrow> rank (Some r) = 0"
    by (simp add: rank_def role_level_cases)
  have admin: "succeeds (require_role ''admin'' user) \<longleftrightarrow>
        tenant_role (claims user) = Some ''owner'' \<or> tenant_role (claims user) = Some ''admin''"
  proof (cases "tenant_role (claims user)")
    case None
    then show ?thesis by (simp add: require_role_succeeds_iff)
  next
    case (Some role)
    have "dict_get_default ROLE_HIERARCHY ''admin'' 0 = 75"
      by (simp add: role_level_cases)
    moreover have "role \<noteq> [] \<and> 75 \<le> dict_get_default ROLE_HIERARCHY role 0
        \<longleftrightarrow> role = ''owner'' \<or> role = ''admin''"
      by (cases "role = ''owner''"; cases "role = ''admin''"; cases "role = ''developer''";
          cases "role = ''viewer''") (simp_all add: role_level_cases)
    ultimately show ?thesis
      using Some by (simp add: require_role_succeeds_iff)
  qed
  have norole: "\<not> truthy (tenant_role (claims user)) \<longrightarrow>
        require_role min_role user =
          Inl (forbidden [(''code'', JStr ''AUTH_301''), (''message'', JStr ''No tenant role''),
                          (''required_role'', JStr min_role)])"
    by (simp add: require_role_no_role)
  show ?thesis
    by (intro conjI) (rule iff r1 r2 r3 r4 r5 unknown admin norole)+
qed


theorem require_role_rank_order_witness:
  "succeeds (require_role ''admin'' (with_tenant_role (Some ''owner'') example_user))
   \<and> succeeds (require_role ''admin'' (with_tenant_role (Some ''admin'') example_user))
   \<and> \<not> succeeds (require_role ''admin'' (with_tenant_role (Some ''developer'') example_user))
   \<and> \<not> succeeds (require_role ''admin'' (with_tenant_role (Some ''viewer'') example_user))
   \<and> rank (Some ''guest'') = 0
   \<and> require_role ''admin'' (with_tenant_role None example_user) =
        Inl (forbidden [(''code'', JStr ''AUTH_301''), (''message'', JStr ''No tenant role''),
                        (''required_role'', JStr ''admin'')])"
proof -
  have role: "tenant_role (claims (with_tenant_role x example_user)) = x" for x
    by (simp add: with_tenant_role_def)
  have guest: "''guest'' \<notin> {''owner'', ''admin'', ''developer'', ''viewer''}"
    by simp
  have none: "\<not> truthy (tenant_role (claims (with_tenant_role None example_user)))"
    by (simp add: role truthy_def)
  show ?thesis
    using require_role_rank_order [of "''admin''" "with_tenant_role (Some ''owner'') example_user" "''guest''"]
      require_role_rank_order [of "''admin''" "with_tenant_role (Some ''admin'') example_user" "''guest''"]
      require_role_rank_order [of "''admin''" "with_tenant_role (Some ''developer'') example_user" "''guest''"]
      require_role_rank_order [of "''admin''" "with_tenant_role (Some ''viewer'') example_user" "''guest''"]
      require_role_rank_order [of "''admin''" "with_tenant_role None example_user" "''guest''"]
      guest none
    by (simp add: role truthy_def)
qed

text \<open>
  The claim as it was written reads "succeeds if and only if the rank of the tenant role is
  at least the rank of \<open>min_role\<close>". A user with no tenant role has rank 0, and so has the
  unknown role \<^verbatim>\<open>guest\<close>, yet the check fails.
\<close>

theorem require_role_rank_iff_counterexample:
  "\<not> (succeeds (require_role ''guest'' example_user)
        \<longleftrightarrow> rank (Some ''guest'') \<le> rank (tenant_role (claims example_user)))"
  by (simp add: require_role_def truthy_def succeeds_def example_user_def
        default_OlympusClaims_def rank_def role_level_cases)

subsection \<open>C9: the tenant check\<close>

text \<open>
  C9, as the code has it. \<open>require_tenant\<close> fails with the 403 error of code
  \<^verbatim>\<open>AUTH_302\<close> when the tenant id is absent or is the empty string, and returns the user
  unchanged in every other case.
\<close>

theorem require_tenant_fails_iff_no_tenant:
  "require_tenant user =
     (if tenant_id (claims user) = None \<or> tenant_id (claims user) = Some []
      then Inl (HTTPException 403
                 (JDict [(''code'', JStr ''AUTH_302''),
                         (''message'', JStr ''Tenant context required'')])
                 None)
      else Inr user)"
  by (cases "tenant_id (claims user)") (simp_all add: require_tenant_def truthy_def forbidden_def)

theorem require_tenant_fails_iff_no_tenant_witness:
  "require_tenant (with_tenant_id (Some ''acme'') example_user)
     = Inr (with_tenant_id (Some ''acme'') example_user)
   \<and> require_tenant example_user =
       Inl (HTTPException 403
             (JDict [(''code'', JStr ''AUTH_302''),
                     (''message'', JStr ''Tenant context required'')])
             None)"
  using require_tenant_fails_iff_no_tenant [of "with_tenant_id (Some ''acme'') example_user"]
    require_tenant_fails_iff_no_tenant [of example_user]
  by (simp add: with_tenant_id_def example_user_def default_OlympusClaims_def)

text \<open>
  The claim as it was written reads "fails exactly when the tenant id is absent". With the
  tenant id present and empty the check fails all the same.
\<close>

theorem require_tenant_empty_id_counterexample:
  "\<not> (\<not> succeeds (require_tenant (with_tenant_id (Some []) example_user))
        \<longleftrightarrow> tenant_id (claims (with_tenant_id (Some []) example_user)) = None)"
  by (simp add: require_tenant_def truthy_def succeeds_def with_tenant_id_def)

subsection \<open>C3: the sliding window\<close>




subsection \<open>C6: the rate-limit key\<close>

text \<open>
  C6, as the code has it. The key is the prefix followed by the identity of the request:
  \<^verbatim>\<open>:user:\<close> and the \<^verbatim>\<open>x-user-id\<close> header when it is present and not empty; else
  \<^verbatim>\<open>:ip:\<close> and the left-most entry of \<^verbatim>\<open>x-forwarded-for\<close> (up to the first comma, with
  surrounding whitespace removed) when that header is present and not empty; else
  \<^verbatim>\<open>:ip:\<close> and the host of the client address when the request has one; else
  \<^verbatim>\<open>:ip:unknown\<close>. Two requests with the same identity and different prefixes have
  different keys, and a check under one prefix leaves the record of the other key as it was.
\<close>

theorem get_key_identity_order:
  "(headers request ''x-user-id'' = Some uid \<and> uid \<noteq> [] \<longrightarrow>
      get_key request prefix = prefix @ '':user:'' @ uid)
   \<and> (\<not> truthy (headers request ''x-user-id'')
        \<and> headers request ''x-forwarded-for'' = Some fwd \<and> fwd \<noteq> [] \<longrightarrow>
      get_key request prefix = prefix @ '':ip:'' @ strip (takeWhile (\<lambda>c. c \<noteq> CHR '','') fwd))
   \<and> (\<not> truthy (headers request ''x-user-id'') \<and> \<not> truthy (headers request ''x-forwarded-for'')
        \<and> client request = Some addr \<longrightarrow>
      get_key request prefix = prefix @ '':ip:'' @ host addr)
   \<and> (\<not> truthy (headers request ''x-user-id'') \<and> \<not> truthy (headers request ''x-forwarded-for'')
        \<and> client request = None \<longrightarrow>
      get_key request prefix = prefix @ '':ip:unknown'')
   \<and> get_key request prefix = prefix @ get_key request []
   \<and> (get_key request [] = get_key request' [] \<and> prefix \<noteq> prefix' \<longrightarrow>
        get_key request prefix \<noteq> get_key request' prefix'
        \<and> requests_of (snd (check now clock self request window_ms max_requests prefix))
             (get_key request' prefix')
           = requests_of self (get_key request' prefix'))"
proof (intro conjI impI)
  assume "headers request ''x-user-id'' = Some uid \<and> uid \<noteq> []"
  then show "get_key request prefix = prefix @ '':user:'' @ uid"
    by (simp add: get_key_def truthy_def)
next
  assume "\<not> truthy (headers request ''x-user-id'')
        \<and> headers request ''x-forwarded-for'' = Some fwd \<and> fwd \<noteq> []"
  then show "get_key request prefix = prefix @ '':ip:'' @ strip (takeWhile (\<lambda>c. c \<noteq> CHR '','') fwd)"
    by (simp add: get_key_def truthy_def hd_split_on)
next
  assume "\<not> truthy (headers request ''x-user-id'') \<and> \<not> truthy (headers request ''x-forwarded-for'')
        \<and> client request = Some addr"
  then show "get_key request prefix = prefix @ '':ip:'' @ host addr"
    by (simp add: get_key_def)
next
  assume "\<not> truthy (headers request ''x-user-id'') \<and> \<not> truthy (headers request ''x-forwarded-for'')
        \<and> client request = None"
  then show "get_key request prefix = prefix @ '':ip:unknown''"
    by (simp add: get_key_def)
next
  show "get_key request prefix = prefix @ get_key request []"
    by (rule get_key_prefix)
next
  assume h: "get_key request [] = get_key request' [] \<and> prefix \<noteq> prefix'"
  have k: "get_key request prefix = prefix @ get_key request []"
    and k': "get_key request' prefix' = prefix' @ get_key request []"
    using h get_key_prefix [of request prefix] get_key_prefix [of request' prefix'] by simp_all
  from h show ne: "get_key request prefix \<noteq> get_key request' prefix'"
    unfolding k k' by simp
  then show "requests_of (snd (check now clock self request window_ms max_requests prefix))
             (get_key request' prefix')
           = requests_of self (get_key request' prefix')"
    by (intro check_requests_of_other) simp
qed

theorem get_key_identity_order_witness:
  "get_key (request_with_headers [(''x-user-id'', ''u42''), (''x-forwarded-for'', ''1.2.3.4'')]) ''api''
     = ''api:user:u42''
   \<and> get_key (request_with_headers [(''x-forwarded-for'', '' 1.2.3.4 , 5.6.7.8'')]) ''api''
     = ''api:ip:1.2.3.4''
   \<and> get_key direct_request ''api'' = ''api:ip:10.0.0.1''
   \<and> get_key anonymous_request ''api'' = ''api:ip:unknown''
   \<and> get_key direct_request ''api'' \<noteq> get_key direct_request ''auth''"
proof -
  let ?r1 = "request_with_headers [(''x-user-id'', ''u42''), (''x-forwarded-for'', ''1.2.3.4'')]"
  let ?r2 = "request_with_headers [(''x-forwarded-for'', '' 1.2.3.4 , 5.6.7.8'')]"
  have h1: "headers ?r1 ''x-user-id'' = Some ''u42'' \<and> ''u42'' \<noteq> []"
    by (simp add: request_with_headers_def)
  have h2: "\<not> truthy (headers ?r2 ''x-user-id'')
        \<and> headers ?r2 ''x-forwarded-for'' = Some '' 1.2.3.4 , 5.6.7.8'' \<and> '' 1.2.3.4 , 5.6.7.8'' \<noteq> []"
    by (simp add: request_with_headers_def truthy_def)
  have h3: "\<not> truthy (headers direct_request ''x-user-id'')
        \<and> \<not> truthy (headers direct_request ''x-forwarded-for'')
        \<and> client direct_request = Some \<lparr>host = ''10.0.0.1'', port = 51234\<rparr>"
    by (simp add: direct_request_def truthy_def)
  have h4: "\<not> truthy (headers anonymous_request ''x-user-id'')
        \<and> \<not> truthy (headers anonymous_request ''x-forwarded-for'')
        \<and> client anonymous_request = None"
    by (simp add: anonymous_request_def truthy_def)
  have h5: "get_key direct_request [] = get_key direct_request [] \<and> ''api'' \<noteq> ''auth''"
    by simp
  have a: "get_key ?r1 ''api'' = ''api:user:u42''"
    using get_key_identity_order [THEN conjunct1, THEN mp, OF h1, of "''api''"] by simp
  have b: "get_key ?r2 ''api'' = ''api:ip:1.2.3.4''"
    using get_key_identity_order [THEN conjunct2, THEN conjunct1, THEN mp, OF h2, of "''api''"]
    by (simp add: strip_def py_isspace_def)
  have c: "get_key direct_request ''api'' = ''api:ip:10.0.0.1''"
    using get_key_identity_order
      [THEN conjunct2, THEN conjunct2, THEN conjunct1, THEN mp, OF h3, of "''api''"]
    by simp
  have d: "get_key anonymous_request ''api'' = ''api:ip:unknown''"
    using get_key_identity_order
      [THEN conjunct2, THEN conjunct2, THEN conjunct2, THEN conjunct1, THEN mp, OF h4, of "''api''"]
    by simp
  have e: "get_key direct_request ''api'' \<noteq> get_key direct_request ''auth''"
    using get_key_identity_order
      [THEN conjunct2, THEN conjunct2, THEN conjunct2, THEN conjunct2, THEN conjunct2,
       THEN mp, OF h5, THEN conjunct1]
    by this
  show ?thesis
    by (intro conjI) (rule a b c d e)+
qed

text \<open>
  The claim as it was written goes from the forwarded-address header straight to the
  literal \<^verbatim>\<open>unknown\<close>. A request with neither header and a client address is keyed by the
  host of that address.
\<close>

theorem get_key_client_host_counterexample:
  "headers direct_request ''x-user-id'' = None
   \<and> headers direct_request ''x-forwarded-for'' = None
   \<and> get_key direct_request ''api'' = ''api:ip:10.0.0.1''
   \<and> get_key direct_request ''api'' \<noteq> ''api:ip:unknown''"
  by (simp add: get_key_def direct_request_def truthy_def)

subsection \<open>C7: extraction from a payload without the custom namespace\<close>

text \<open>
  C7, as the code has it, for a verified payload. When the payload has no \<^verbatim>\<open>olympus\<close>
  entry, every user \<open>get_current_user\<close> returns has no tenant id, role, slug or plan
  tier, an empty permission list and no platform-admin flag; and it does return a user
  when the \<^verbatim>\<open>sub\<close> and \<^verbatim>\<open>email\<close> claims are absent or strings and the
  \<^verbatim>\<open>email_verified\<close> claim is absent or a value the boolean field accepts. With or without
  the namespace, \<open>email_verified\<close> of the user is the payload's own top-level claim as the
  field reads it: false when the claim is absent, the boolean itself when it is one. With
  or without the namespace, an absent subject gives the empty string as identifier: every
  user returned for such a payload has it, and one is returned whenever the namespace, the
  email and the \<^verbatim>\<open>email_verified\<close> claim are accepted.
\<close>

theorem get_current_user_without_namespace:
  assumes "decode_jwt secret jwt_decode (credentials creds) = Inr payload"
  shows
    "(map_of payload ''olympus'' = None
        \<and> dict_get_default payload ''sub'' (JStr []) = JStr uid
        \<and> dict_get_default payload ''email'' (JStr []) = JStr mail
        \<and> validate_bool (dict_get_default payload ''email_verified'' (JBool False)) = Inr verified
      \<longrightarrow> get_current_user secret jwt_decode creds =
            Inr \<lparr>id' = uid, email = mail, email_verified = verified,
                 claims = \<lparr>tenant_id = None, tenant_role = None, tenant_slug = None,
                           permissions = [], plan_tier = None, is_platform_admin = False\<rparr>\<rparr>)
     \<and> (map_of payload ''olympus'' = None
          \<and> get_current_user secret jwt_decode creds = Inr user
        \<longrightarrow> claims user =
              \<lparr>tenant_id = None, tenant_role = None, tenant_slug = None,
               permissions = [], plan_tier = None, is_platform_admin = False\<rparr>)
     \<and> (get_current_user secret jwt_decode creds = Inr user
        \<longrightarrow> validate_bool (dict_get_default payload ''email_verified'' (JBool False))
              = Inr (email_verified user))
     \<and> (map_of payload ''email_verified'' = None
          \<and> get_current_user secret jwt_decode creds = Inr user
        \<longrightarrow> \<not> email_verified user)
     \<and> (map_of payload ''email_verified'' = Some (JBool b)
          \<and> get_current_user secret jwt_decode creds = Inr user
        \<longrightarrow> email_verified user = b)
     \<and> (map_of payload ''sub'' = None
          \<and> get_current_user secret jwt_decode creds = Inr user
        \<longrightarrow> id' user = [])
     \<and> (map_of payload ''sub'' = None
          \<and> dict_get_default payload ''olympus'' (JDict []) = JDict olympus
          \<and> new_OlympusClaims
                (dict_get olympus ''tenant_id'')
                (dict_get olympus ''tenant_role'')
                (dict_get olympus ''tenant_slug'')
                (dict_get_default olympus ''permissions'' (JList []))
                (dict_get olympus ''plan_tier'')
                (dict_get_default olympus ''is_platform_admin'' (JBool False)) = Inr cl
          \<and> dict_get_default payload ''email'' (JStr []) = JStr mail
          \<and> validate_bool (dict_get_default payload ''email_verified'' (JBool False)) = Inr verified
        \<longrightarrow> get_current_user secret jwt_decode creds =
              Inr \<lparr>id' = [], email = mail, email_verified = verified, claims = cl\<rparr>)"
proof -
  note unfold = get_current_user_decoded [OF assms]
  have empty: "new_OlympusClaims (dict_get [] ''tenant_id'') (dict_get [] ''tenant_role'')
        (dict_get [] ''tenant_slug'') (dict_get_default [] ''permissions'' (JList []))
        (dict_get [] ''plan_tier'') (dict_get_default [] ''is_platform_admin'' (JBool False))
      = Inr \<lparr>tenant_id = None, tenant_role = None, tenant_slug = None,
              permissions = [], plan_tier = None, is_platform_admin = False\<rparr>"
    by (simp add: dict_get_def dict_get_default_def new_OlympusClaims_def)
  have no_ns: "dict_get_default payload ''olympus'' (JDict []) = JDict []"
    if "map_of payload ''olympus'' = None"
    using that by (simp add: dict_get_default_def)
  have built: "\<exists>ns cl. dict_get_default payload ''olympus'' (JDict []) = JDict ns
        \<and> new_OlympusClaims
              (dict_get ns ''tenant_id'') (dict_get ns ''tenant_role'')
              (dict_get ns ''tenant_slug'') (dict_get_default ns ''permissions'' (JList []))
              (dict_get ns ''plan_tier'') (dict_get_default ns ''is_platform_admin'' (JBool False))
            = Inr cl
        \<and> new_AuthUser (dict_get_default payload ''sub'' (JStr []))
              (dict_get_default payload ''email'' (JStr []))
              (dict_get_default payload ''email_verified'' (JBool False)) cl = Inr user"
    if "get_current_user secret jwt_decode creds = Inr user"
    using that unfolding unfold by (auto split: json.splits sum.splits)
  have fields: "validate_str (dict_get_default payload ''sub'' (JStr [])) = Inr (id' user)
        \<and> validate_bool (dict_get_default payload ''email_verified'' (JBool False))
            = Inr (email_verified user)"
    if "get_current_user secret jwt_decode creds = Inr user"
    using built [OF that] by (auto dest: new_AuthUser_fields)
  show ?thesis
  proof (intro conjI impI)
    assume h: "map_of payload ''olympus'' = None
        \<and> dict_get_default payload ''sub'' (JStr []) = JStr uid
        \<and> dict_get_default payload ''email'' (JStr []) = JStr mail
        \<and> validate_bool (dict_get_default payload ''email_verified'' (JBool False)) = Inr verified"
    then have ns: "dict_get_default payload ''olympus'' (JDict []) = JDict []"
      by (intro no_ns) simp
    show "get_current_user secret jwt_decode creds =
            Inr \<lparr>id' = uid, email = mail, email_verified = verified,
                 claims = \<lparr>tenant_id = None, tenant_role = None, tenant_slug = None,
                           permissions = [], plan_tier = None, is_platform_admin = False\<rparr>\<rparr>"
      unfolding unfold ns using h by (simp add: empty new_AuthUser_def)
  next
    assume h: "map_of payload ''olympus'' = None
          \<and> get_current_user secret jwt_decode creds = Inr user"
    then have ns: "dict_get_default payload ''olympus'' (JDict []) = JDict []"
      by (intro no_ns) simp
    from h have ok: "get_current_user secret jwt_decode creds = Inr user"
      by simp
    from built [OF ok] obtain cl where
      cl: "new_OlympusClaims (dict_get [] ''tenant_id'') (dict_get [] ''tenant_role'')
        (dict_get [] ''tenant_slug'') (dict_get_default [] ''permissions'' (JList []))
        (dict_get [] ''plan_tier'') (dict_get_default [] ''is_platform_admin'' (JBool False))
      = Inr cl"
      and user: "new_AuthUser (dict_get_default payload ''sub'' (JStr []))
              (dict_get_default payload ''email'' (JStr []))
              (dict_get_default payload ''email_verified'' (JBool False)) cl = Inr user"
      unfolding ns by auto
    from cl have "cl = \<lparr>tenant_id = None, tenant_role = None, tenant_slug = None,
               permissions = [], plan_tier = None, is_platform_admin = False\<rparr>"
      unfolding empty by simp
    with new_AuthUser_claims [OF user] show "claims user =
              \<lparr>tenant_id = None, tenant_role = None, tenant_slug = None,
               permissions = [], plan_tier = None, is_platform_admin = False\<rparr>"
      by simp
  next
    assume "get_current_user secret jwt_decode creds = Inr user"
    then show "validate_bool (dict_get_default payload ''email_verified'' (JBool False))
              = Inr (email_verified user)"
      using fields by simp
  next
    assume h: "map_of payload ''email_verified'' = None
          \<and> get_current_user secret jwt_decode creds = Inr user"
    then have "dict_get_default payload ''email_verified'' (JBool False) = JBool False"
      by (simp add: dict_get_default_def)
    with h fields show "\<not> email_verified user"
      by simp
  next
    assume h: "map_of payload ''email_verified'' = Some (JBool b)
          \<and> get_current_user secret jwt_decode creds = Inr user"
    then have "dict_get_default payload ''email_verified'' (JBool False) = JBool b"
      by (simp add: dict_get_default_def)
    with h fields show "email_verified user = b"
      by simp
  next
    assume h: "map_of payload ''sub'' = None
          \<and> get_current_user secret jwt_decode creds = Inr user"
    then have "dict_get_default payload ''sub'' (JStr []) = JStr []"
      by (simp add: dict_get_default_def)
    with h fields show "id' user = []"
      by simp
  next
    assume h: "map_of payload ''sub'' = None
          \<and> dict_get_default payload ''olympus'' (JDict []) = JDict olympus
          \<and> new_OlympusClaims
                (dict_get olympus ''tenant_id'')
                (dict_get olympus ''tenant_role'')
                (dict_get olympus ''tenant_slug'')
                (dict_get_default olympus ''permissions'' (JList []))
                (dict_get olympus ''plan_tier'')
                (dict_get_default olympus ''is_platform_admin'' (JBool False)) = Inr cl
          \<and> dict_get_default payload ''email'' (JStr []) = JStr mail
          \<and> validate_bool (dict_get_default payload ''email_verified'' (JBool False)) = Inr verified"
    then have sub: "dict_get_default payload ''sub'' (JStr []) = JStr []"
      by (simp add: dict_get_default_def)
    show "get_current_user secret jwt_decode creds =
              Inr \<lparr>id' = [], email = mail, email_verified = verified, claims = cl\<rparr>"
      unfolding unfold using h by (simp add: sub new_AuthUser_def)
  qed
qed

text \<open>
  Two payloads without subject. The first has an email and an audience only: the
  identifier is empty and every flag false. The second carries \<^verbatim>\<open>email_verified: 1\<close> and a
  namespace with a tenant id: the identifier is empty, the flag true, the tenant kept.
\<close>

theorem get_current_user_without_namespace_witness:
  "get_current_user ''secret''
     (constant_decoder (Decoded [(''email'', JStr ''user@example.com''), (''aud'', JStr ''authenticated'')]))
     (bearer ''token'')
   = Inr \<lparr>id' = [], email = ''user@example.com'', email_verified = False,
          claims = \<lparr>tenant_id = None, tenant_role = None, tenant_slug = None,
                    permissions = [], plan_tier = None, is_platform_admin = False\<rparr>\<rparr>
   \<and> get_current_user ''secret''
       (constant_decoder (Decoded [(''email'', JStr ''user@example.com''), (''email_verified'', JInt 1),
                                   (''olympus'', JDict [(''tenant_id'', JStr ''acme'')])]))
       (bearer ''token'')
     = Inr \<lparr>id' = [], email = ''user@example.com'', email_verified = True,
            claims = \<lparr>tenant_id = Some ''acme'', tenant_role = None, tenant_slug = None,
                      permissions = [], plan_tier = None, is_platform_admin = False\<rparr>\<rparr>"
proof -
  let ?p1 = "[(''email'', JStr ''user@example.com''), (''aud'', JStr ''authenticated'')]"
  let ?ns = "[(''tenant_id'', JStr ''acme'')]"
  let ?p2 = "[(''email'', JStr ''user@example.com''), (''email_verified'', JInt 1),
              (''olympus'', JDict ?ns)]"
  let ?cl = "\<lparr>tenant_id = Some ''acme'', tenant_role = None, tenant_slug = None,
              permissions = [], plan_tier = None, is_platform_admin = False\<rparr>"
  have d1: "decode_jwt ''secret'' (constant_decoder (Decoded ?p1)) (credentials (bearer ''token''))
      = Inr ?p1"
    by (rule decode_jwt_constant)
  have d2: "decode_jwt ''secret'' (constant_decoder (Decoded ?p2)) (credentials (bearer ''token''))
      = Inr ?p2"
    by (rule decode_jwt_constant)
  have h1: "map_of ?p1 ''olympus'' = None
        \<and> dict_get_default ?p1 ''sub'' (JStr []) = JStr []
        \<and> dict_get_default ?p1 ''email'' (JStr []) = JStr ''user@example.com''
        \<and> validate_bool (dict_get_default ?p1 ''email_verified'' (JBool False)) = Inr False"
    by (simp add: dict_get_default_def)
  have h2: "map_of ?p2 ''sub'' = None
          \<and> dict_get_default ?p2 ''olympus'' (JDict []) = JDict ?ns
          \<and> new_OlympusClaims
                (dict_get ?ns ''tenant_id'')
                (dict_get ?ns ''tenant_role'')
                (dict_get ?ns ''tenant_slug'')
                (dict_get_default ?ns ''permissions'' (JList []))
                (dict_get ?ns ''plan_tier'')
                (dict_get_default ?ns ''is_platform_admin'' (JBool False)) = Inr ?cl
          \<and> dict_get_default ?p2 ''email'' (JStr []) = JStr ''user@example.com''
          \<and> validate_bool (dict_get_default ?p2 ''email_verified'' (JBool False)) = Inr True"
    by (simp add: dict_get_def dict_get_default_def new_OlympusClaims_def)
  note first = get_current_user_without_namespace
    [OF d1, where uid = "[]" and mail = "''user@example.com''" and verified = False,
     THEN conjunct1, THEN mp, OF h1]
  note second = get_current_user_without_namespace
    [OF d2, where olympus = ?ns and cl = ?cl and mail = "''user@example.com''" and verified = True,
     THEN conjunct2, THEN conjunct2, THEN conjunct2, THEN conjunct2, THEN conjunct2,
     THEN conjunct2, THEN mp, OF h2]
  show ?thesis
    by (intro conjI) (rule first second)+
qed

text \<open>
  The claim as it was written gives \<open>email_verified = false\<close> for every payload without the
  custom namespace. The flag is read from the top level of the payload, not from the
  namespace: a payload without namespace that carries \<^verbatim>\<open>email_verified: true\<close> yields true.
\<close>

theorem email_verified_without_namespace_counterexample:
  "map_of [(''sub'', JStr ''user-1''), (''email_verified'', JBool True)] ''olympus'' = None
   \<and> map_sum id email_verified
        (get_current_user ''secret''
           (constant_decoder (Decoded [(''sub'', JStr ''user-1''), (''email_verified'', JBool True)]))
           (bearer ''token''))
      = Inr True"
  by (simp add: get_current_user_decoded [OF decode_jwt_constant] dict_get_def dict_get_default_def
        new_OlympusClaims_def new_AuthUser_def)

subsection \<open>C8: the permission list\<close>

text \<open>
  C8, as the code has it. The permissions of the extracted user are the token's list as it
  stands, in its order and with its duplicates: when the namespace carries the list of
  strings \<open>ps\<close> and the extraction succeeds, the user's permissions are \<open>ps\<close>. The
  permission checks read the list only through membership: for two users whose permission
  lists have the same elements, \<open>require_permission\<close> and \<open>require_any_permission\<close> either
  both succeed or both fail with the same error.
\<close>

theorem permissions_kept_as_list:
  "(decode_jwt secret jwt_decode (credentials creds) = Inr payload
      \<and> map_of payload ''olympus'' = Some (JDict olympus)
      \<and> map_of olympus ''permissions'' = Some (JList (map JStr ps))
      \<and> get_current_user secret jwt_decode creds = Inr user
    \<longrightarrow> permissions (claims user) = ps)
   \<and> (set (permissions (claims user1)) = set (permissions (claims user2)) \<longrightarrow>
        outcome (require_permission p user1) = outcome (require_permission p user2)
        \<and> outcome (require_any_permission qs user1) = outcome (require_any_permission qs user2))"
proof (intro conjI impI)
  assume h: "decode_jwt secret jwt_decode (credentials creds) = Inr payload
      \<and> map_of payload ''olympus'' = Some (JDict olympus)
      \<and> map_of olympus ''permissions'' = Some (JList (map JStr ps))
      \<and> get_current_user secret jwt_decode creds = Inr user"
  then have dec: "decode_jwt secret jwt_decode (credentials creds) = Inr payload"
    and ns: "dict_get_default payload ''olympus'' (JDict []) = JDict olympus"
    and perms: "dict_get_default olympus ''permissions'' (JList []) = JList (map JStr ps)"
    and ok: "get_current_user secret jwt_decode creds = Inr user"
    by (simp_all add: dict_get_default_def)
  from ok obtain cl where cl: "new_OlympusClaims
                  (dict_get olympus ''tenant_id'')
                  (dict_get olympus ''tenant_role'')
                  (dict_get olympus ''tenant_slug'')
                  (JList (map JStr ps))
                  (dict_get olympus ''plan_tier'')
                  (dict_get_default olympus ''is_platform_admin'' (JBool False)) = Inr cl"
    and user: "new_AuthUser
                 (dict_get_default payload ''sub'' (JStr []))
                 (dict_get_default payload ''email'' (JStr []))
                 (dict_get_default payload ''email_verified'' (JBool False))
                 cl = Inr user"
    by (auto simp add: get_current_user_decoded [OF dec] ns perms split: sum.splits)
  show "permissions (claims user) = ps"
    using new_OlympusClaims_permissions [OF cl] new_AuthUser_claims [OF user] by simp
next
  assume "set (permissions (claims user1)) = set (permissions (claims user2))"
  then show "outcome (require_permission p user1) = outcome (require_permission p user2)"
    by (simp add: outcome_require_permission)
next
  assume "set (permissions (claims user1)) = set (permissions (claims user2))"
  then show "outcome (require_any_permission qs user1) = outcome (require_any_permission qs user2)"
    by (simp add: outcome_require_any_permission)
qed

theorem permissions_kept_as_list_witness:
  "get_current_user ''secret''
     (constant_decoder (Decoded (payload_with_permissions [''read'', ''write'', ''read''])))
     (bearer ''token'')
   = Inr (with_permissions [''read'', ''write'', ''read''] example_user)
   \<and> permissions (claims (with_permissions [''read'', ''write'', ''read''] example_user))
      = [''read'', ''write'', ''read'']
   \<and> outcome (require_permission ''write'' (with_permissions [''read'', ''read''] example_user))
      = outcome (require_permission ''write'' (with_permissions [''read''] example_user))
   \<and> outcome (require_any_permission [''read'', ''admin''] (with_permissions [''read'', ''read''] example_user))
      = outcome (require_any_permission [''read'', ''admin''] (with_permissions [''read''] example_user))"
proof -
  let ?ps = "[''read'', ''write'', ''read'']"
  let ?payload = "payload_with_permissions ?ps"
  have ok: "get_current_user ''secret'' (constant_decoder (Decoded ?payload)) (bearer ''token'')
      = Inr (with_permissions ?ps example_user)"
    by (rule get_current_user_with_permissions)
  have h: "decode_jwt ''secret'' (constant_decoder (Decoded ?payload)) (credentials (bearer ''token''))
        = Inr ?payload
      \<and> map_of ?payload ''olympus'' = Some (JDict [(''permissions'', JList (map JStr ?ps))])
      \<and> map_of [(''permissions'', JList (map JStr ?ps))] ''permissions'' = Some (JList (map JStr ?ps))
      \<and> get_current_user ''secret'' (constant_decoder (Decoded ?payload)) (bearer ''token'')
          = Inr (with_permissions ?ps example_user)"
    using ok by (simp add: decode_jwt_constant payload_with_permissions_def)
  have kept: "permissions (claims (with_permissions ?ps example_user)) = ?ps"
    by (rule permissions_kept_as_list [THEN conjunct1, THEN mp, OF h])
  have same: "set (permissions (claims (with_permissions [''read'', ''read''] example_user)))
      = set (permissions (claims (with_permissions [''read''] example_user)))"
    by (simp add: with_permissions_def)
  note inv = permissions_kept_as_list [THEN conjunct2, THEN mp, OF same]
  show ?thesis
    by (intro conjI) (rule ok kept inv [THEN conjunct1] inv [THEN conjunct2])+
qed

text \<open>
  The claim as it was written has permission lists that are equal as sets give equal
  contexts. The lists \<^verbatim>\<open>["read", "read"]\<close> and \<^verbatim>\<open>["read"]\<close> have the same elements and
  give different users.
\<close>

theorem permissions_not_a_set_counterexample:
  "set [''read'', ''read''] = set [''read'']
   \<and> get_current_user ''secret''
        (constant_decoder (Decoded (payload_with_permissions [''read'', ''read''])))
        (bearer ''token'')
     \<noteq> get_current_user ''secret''
        (constant_decoder (Decoded (payload_with_permissions [''read''])))
        (bearer ''token'')"
  by (simp add: get_current_user_with_permissions with_permissions_def example_user_def
        default_OlympusClaims_def)


subsection \<open>C10: the optional user\<close>

text \<open>
  C10, as the code has it. \<open>get_optional_user\<close> returns \<open>None\<close> without credentials, and
  \<open>None\<close> whenever \<open>get_current_user\<close> fails with an \<open>HTTPException\<close>: with no
  signing secret, with an expired token, with an invalid token. When \<open>get_current_user\<close>
  returns a user it returns that user. It raises exactly when \<open>get_current_user\<close> raises
  an exception that is not an \<open>HTTPException\<close>, and then it raises that exception.
\<close>

theorem get_optional_user_absorbs_http_errors:
  "get_optional_user secret jwt_decode None = Inr None
   \<and> get_optional_user [] jwt_decode (Some creds) = Inr None
   \<and> (secret \<noteq> []
        \<and> jwt_decode (credentials creds) secret [''HS256''] ''authenticated'' = ExpiredSignatureError
      \<longrightarrow> get_optional_user secret jwt_decode (Some creds) = Inr None)
   \<and> (secret \<noteq> []
        \<and> jwt_decode (credentials creds) secret [''HS256''] ''authenticated'' = InvalidTokenError msg
      \<longrightarrow> get_optional_user secret jwt_decode (Some creds) = Inr None)
   \<and> (get_current_user secret jwt_decode creds = Inl (HTTPException code detail hdrs)
      \<longrightarrow> get_optional_user secret jwt_decode (Some creds) = Inr None)
   \<and> (get_current_user secret jwt_decode creds = Inr user
      \<longrightarrow> get_optional_user secret jwt_decode (Some creds) = Inr (Some user))
   \<and> (get_optional_user secret jwt_decode (Some creds) = Inl e
      \<longleftrightarrow> get_current_user secret jwt_decode creds = Inl e \<and> \<not> is_HTTPException e)"
proof (intro conjI impI)
  show "get_optional_user secret jwt_decode None = Inr None"
    by (simp add: get_optional_user_def)
next
  show "get_optional_user [] jwt_decode (Some creds) = Inr None"
    by (simp add: get_optional_user_Some get_current_user_decode_error [OF decode_jwt_no_secret]
          is_HTTPException_def)
next
  assume "secret \<noteq> []
        \<and> jwt_decode (credentials creds) secret [''HS256''] ''authenticated'' = ExpiredSignatureError"
  then have "decode_jwt secret jwt_decode (credentials creds) =
           Inl (HTTPException 401
                 (JDict [(''code'', JStr ''AUTH_105''), (''message'', JStr ''Token expired'')])
                 None)"
    by (intro decode_jwt_expired) simp_all
  then show "get_optional_user secret jwt_decode (Some creds) = Inr None"
    by (simp add: get_optional_user_Some get_current_user_decode_error is_HTTPException_def)
next
  assume "secret \<noteq> []
        \<and> jwt_decode (credentials creds) secret [''HS256''] ''authenticated'' = InvalidTokenError msg"
  then have "decode_jwt secret jwt_decode (credentials creds) =
           Inl (HTTPException 401
                 (JDict [(''code'', JStr ''AUTH_106''),
                         (''message'', JStr (''Invalid token: '' @ msg))])
                 None)"
    by (intro decode_jwt_invalid) simp_all
  then show "get_optional_user secret jwt_decode (Some creds) = Inr None"
    by (simp add: get_optional_user_Some get_current_user_decode_error is_HTTPException_def)
next
  assume "get_current_user secret jwt_decode creds = Inl (HTTPException code detail hdrs)"
  then show "get_optional_user secret jwt_decode (Some creds) = Inr None"
    by (simp add: get_optional_user_Some is_HTTPException_def)
next
  assume "get_current_user secret jwt_decode creds = Inr user"
  then show "get_optional_user secret jwt_decode (Some creds) = Inr (Some user)"
    by (simp add: get_optional_user_Some)
next
  show "get_optional_user secret jwt_decode (Some creds) = Inl e
      \<longleftrightarrow> get_current_user secret jwt_decode creds = Inl e \<and> \<not> is_HTTPException e"
    by (cases "get_current_user secret jwt_decode creds") (auto simp add: get_optional_user_Some)
qed

theorem get_optional_user_absorbs_http_errors_witness:
  "get_optional_user ''secret'' (constant_decoder ExpiredSignatureError) None = Inr None
   \<and> get_optional_user [] (constant_decoder ExpiredSignatureError) (Some (bearer ''token'')) = Inr None
   \<and> get_optional_user ''secret'' (constant_decoder ExpiredSignatureError) (Some (bearer ''token''))
       = Inr None
   \<and> get_optional_user ''secret'' (constant_decoder (InvalidTokenError ''Signature verification failed''))
        (Some (bearer ''token''))
       = Inr None
   \<and> get_optional_user ''secret'' (constant_decoder (Decoded (payload_with_permissions [''read''])))
        (Some (bearer ''token''))
       = Inr (Some (with_permissions [''read''] example_user))"
proof -
  let ?c = "bearer ''token''"
  have h3: "''secret'' \<noteq> []
      \<and> constant_decoder ExpiredSignatureError (credentials ?c) ''secret'' [''HS256''] ''authenticated''
          = ExpiredSignatureError"
    by (simp add: constant_decoder_def)
  have h4: "''secret'' \<noteq> []
      \<and> constant_decoder (InvalidTokenError ''Signature verification failed'') (credentials ?c)
            ''secret'' [''HS256''] ''authenticated''
          = InvalidTokenError ''Signature verification failed''"
    by (simp add: constant_decoder_def)
  have h6: "get_current_user ''secret'' (constant_decoder (Decoded (payload_with_permissions [''read''])))
      ?c = Inr (with_permissions [''read''] example_user)"
    by (rule get_current_user_with_permissions)
  note T1 = get_optional_user_absorbs_http_errors
    [where secret = "''secret''" and jwt_decode = "constant_decoder ExpiredSignatureError"
       and creds = ?c]
  note T2 = get_optional_user_absorbs_http_errors
    [where secret = "''secret''"
       and jwt_decode = "constant_decoder (InvalidTokenError ''Signature verification failed'')"
       and creds = ?c and msg = "''Signature verification failed''"]
  note T3 = get_optional_user_absorbs_http_errors
    [where secret = "''secret''"
       and jwt_decode = "constant_decoder (Decoded (payload_with_permissions [''read'']))"
       and creds = ?c and user = "with_permissions [''read''] example_user"]
  show ?thesis
    by (intro conjI)
       (rule T1 [THEN conjunct1]
             T1 [THEN conjunct2, THEN conjunct1]
             T1 [THEN conjunct2, THEN conjunct2, THEN conjunct1, THEN mp, OF h3]
             T2 [THEN conjunct2, THEN conjunct2, THEN conjunct2, THEN conjunct1, THEN mp, OF h4]
             T3 [THEN conjunct2, THEN conjunct2, THEN conjunct2, THEN conjunct2, THEN conjunct2,
                 THEN conjunct1, THEN mp, OF h6])+
qed

text \<open>
  The claim as it was written has \<open>get_optional_user\<close> never raise. For a token whose
  verified payload carries \<^verbatim>\<open>"olympus": null\<close>, \<^verbatim>\<open>payload.get("olympus", {})\<close> is
  \<^verbatim>\<open>None\<close>, the next \<^verbatim>\<open>.get\<close> raises \<open>AttributeError\<close>, and the handler for
  \<open>HTTPException\<close> does not catch it.
\<close>

theorem get_optional_user_raises_counterexample:
  "get_optional_user ''secret''
     (constant_decoder (Decoded [(''sub'', JStr ''user-1''), (''olympus'', JNull)]))
     (Some (bearer ''token''))
   = Inl AttributeError"
  by (simp add: get_optional_user_Some get_current_user_decoded [OF decode_jwt_constant]
        dict_get_default_def is_HTTPException_def)

end
